theory Spec2Isabelle
  imports Main "HOL-Library.Multiset"
begin

section \<open>Strings and regular expressions\<close>

text \<open>
  A Python \<open>str\<close> is modelled as a HOL \<open>string\<close>: a list of characters whose code
  points lie below 256.  In that range the decimal digits of Unicode are exactly
  \<open>0\<close> .. \<open>9\<close>, so the class \<open>\d\<close> and the class \<open>[0-9]\<close> coincide.
\<close>

definition code_point :: "char \<Rightarrow> nat" where
  "code_point c = of_char c"

definition newline :: char where
  "newline = CHR 0x0A"

text \<open>
  A character class \<open>[lo-hi]\<close> holds the characters whose code point lies between
  those of \<open>lo\<close> and \<open>hi\<close>.
\<close>

definition in_class :: "char \<Rightarrow> char \<Rightarrow> char \<Rightarrow> bool" where
  "in_class lo hi c = (code_point lo \<le> code_point c \<and> code_point c \<le> code_point hi)"

text \<open>
  The fragment of the \<open>re\<close> syntax the program and \<open>strptime\<close> use.  \<open>Bol\<close> is
  \<open>^\<close> and \<open>Eol\<close> is \<open>$\<close>, both without the MULTILINE flag.
\<close>

datatype regex =
    Lit char
  | Range char char
  | Cat regex regex
  | Alt regex regex
  | Opt regex
  | Bol
  | Eol

text \<open>
  A backtracking matcher.  A state is the number of characters consumed so far and the
  rest of the subject; the result lists every state in which the expression can stop, in
  the order in which the backtracking engine of \<open>re\<close> tries them (left alternative first,
  \<open>?\<close> greedy).  As in Python, \<open>$\<close> succeeds at the end of the subject and also just
  before a newline that is the last character of the subject.
\<close>

fun rmatch :: "regex \<Rightarrow> nat \<times> string \<Rightarrow> (nat \<times> string) list" where
  "rmatch (Lit c) (i, s) =
     (case s of [] \<Rightarrow> [] | x # xs \<Rightarrow> if x = c then [(Suc i, xs)] else [])"
| "rmatch (Range lo hi) (i, s) =
     (case s of [] \<Rightarrow> []
      | x # xs \<Rightarrow> if in_class lo hi x then [(Suc i, xs)] else [])"
| "rmatch (Cat a b) p = concat (map (rmatch b) (rmatch a p))"
| "rmatch (Alt a b) p = rmatch a p @ rmatch b p"
| "rmatch (Opt a) p = rmatch a p @ [p]"
| "rmatch Bol (i, s) = (if i = 0 then [(i, s)] else [])"
| "rmatch Eol (i, s) = (if s = [] \<or> s = [newline] then [(i, s)] else [])"

text \<open>\<open>re.match\<close>: anchored at the start; the end position of the first match found.\<close>

definition re_match :: "regex \<Rightarrow> string \<Rightarrow> nat option" where
  "re_match r s = (case rmatch r (0, s) of [] \<Rightarrow> None | (j, _) # _ \<Rightarrow> Some j)"

text \<open>Python's ordering of strings: by code point, a proper prefix being smaller.\<close>

fun str_ge :: "string \<Rightarrow> string \<Rightarrow> bool" where
  "str_ge a [] = True"
| "str_ge [] (y # ys) = False"
| "str_ge (x # xs) (y # ys) =
     (if x = y then str_ge xs ys else code_point y < code_point x)"

text \<open>\<open>int\<close> of a string of decimal digits, and \<open>str\<close> of an integer.\<close>

definition int_of_digits :: "string \<Rightarrow> nat" where
  "int_of_digits s = foldl (\<lambda>n c. 10 * n + (code_point c - 48)) 0 s"

fun str_nat :: "nat \<Rightarrow> string" where
  "str_nat n =
     (if n < 10 then [''0123456789'' ! n]
      else str_nat (n div 10) @ [''0123456789'' ! (n mod 10)])"

declare str_nat.simps [simp del]

definition str_int :: "int \<Rightarrow> string" where
  "str_int i = (if i < 0 then CHR ''-'' # str_nat (nat (- i)) else str_nat (nat i))"

section \<open>Dates and times\<close>

datatype error = ValueError

text \<open>
  A \<open>datetime\<close> with its date as the proleptic Gregorian ordinal of the day; seconds and
  microseconds are always zero in this program.  A \<open>timedelta\<close> is normalised by its
  constructor so that \<open>0 \<le> seconds < 86400\<close>.
\<close>

record datetime =
  ordinal :: int
  hour :: nat
  minute :: nat

record timedelta =
  days :: int
  seconds :: int

definition make_timedelta :: "int \<Rightarrow> int \<Rightarrow> timedelta" where
  "make_timedelta d s =
     (let total = d * 86400 + s
      in \<lparr>days = total div 86400, seconds = total mod 86400\<rparr>)"

definition datetime_less :: "datetime \<Rightarrow> datetime \<Rightarrow> bool" where
  "datetime_less a b =
     (ordinal a < ordinal b \<or>
      ordinal a = ordinal b \<and>
        (hour a < hour b \<or> hour a = hour b \<and> minute a < minute b))"

definition datetime_add_days :: "datetime \<Rightarrow> int \<Rightarrow> datetime" where
  "datetime_add_days a n = a\<lparr>ordinal := ordinal a + n\<rparr>"

definition datetime_sub :: "datetime \<Rightarrow> datetime \<Rightarrow> timedelta" where
  "datetime_sub a b =
     make_timedelta (ordinal a - ordinal b)
       ((int (hour a) * 3600 + int (minute a) * 60) -
        (int (hour b) * 3600 + int (minute b) * 60))"

text \<open>
  \<open>datetime.strptime(data_string, "%H:%M")\<close>.  The format becomes the expression
  \<open>(?P<H>2[0-3]|[0-1]\d|\d):(?P<M>[0-5]\d|\d)\<close>, matched at the start of the
  subject; no match is a \<open>ValueError\<close>, and so is a match that leaves part of the
  subject unconverted.  The date defaults to 1900-01-01, whose ordinal is 693596.
\<close>

definition directive_H :: regex where
  "directive_H =
     Alt (Cat (Lit CHR ''2'') (Range CHR ''0'' CHR ''3''))
    (Alt (Cat (Range CHR ''0'' CHR ''1'') (Range CHR ''0'' CHR ''9''))
         (Range CHR ''0'' CHR ''9''))"

definition directive_M :: regex where
  "directive_M =
     Alt (Cat (Range CHR ''0'' CHR ''5'') (Range CHR ''0'' CHR ''9''))
         (Range CHR ''0'' CHR ''9'')"

definition strptime_HM :: "string \<Rightarrow> error + datetime" where
  "strptime_HM data_string =
     (case concat (map (\<lambda>(i, r).
             concat (map (\<lambda>(k, r').
                map (\<lambda>(j, r''). (i, k, j)) (rmatch directive_M (k, r')))
               (rmatch (Lit CHR '':'') (i, r))))
            (rmatch directive_H (0, data_string))) of
        [] \<Rightarrow> Inl ValueError
      | (i, k, j) # _ \<Rightarrow>
          if length data_string \<noteq> j then Inl ValueError
          else Inr \<lparr>ordinal = 693596,
                    hour = int_of_digits (take i data_string),
                    minute = int_of_digits (take (j - k) (drop k data_string))\<rparr>)"

section \<open>Utility functions\<close>

text \<open>\<open>time_pattern = r"^(2[0-3]|[01]?[0-9]):([0-5][0-9])$"\<close>\<close>

definition time_pattern :: regex where
  "time_pattern =
     Cat Bol
      (Cat (Alt (Cat (Lit CHR ''2'') (Range CHR ''0'' CHR ''3''))
                (Cat (Opt (Range CHR ''0'' CHR ''1'')) (Range CHR ''0'' CHR ''9'')))
      (Cat (Lit CHR '':'')
      (Cat (Cat (Range CHR ''0'' CHR ''5'') (Range CHR ''0'' CHR ''9''))
           Eol)))"

definition validate_time_format :: "string \<Rightarrow> bool" where
  "validate_time_format time_str = (re_match time_pattern time_str \<noteq> None)"

text \<open>
  The \<open>seconds\<close> attribute of the difference is its normalised seconds component, the
  whole days left out.
\<close>

definition calculate_duration :: "string \<Rightarrow> string \<Rightarrow> error + int" where
  "calculate_duration start_time end_time =
     (case strptime_HM start_time of
        Inl e \<Rightarrow> Inl e
      | Inr start \<Rightarrow>
          (case strptime_HM end_time of
             Inl e \<Rightarrow> Inl e
           | Inr end0 \<Rightarrow>
               (let end1 = (if datetime_less end0 start
                            then datetime_add_days end0 1 else end0)
                in Inr (seconds (datetime_sub end1 start) div 60))))"

section \<open>The session and the page\<close>

datatype priority = High | Medium | Low

fun priority_str :: "priority \<Rightarrow> string" where
  "priority_str High = ''High''"
| "priority_str Medium = ''Medium''"
| "priority_str Low = ''Low''"

record activity =
  name :: string
  start_time :: string
  end_time :: string
  priority :: priority
  duration :: int

text \<open>
  Displayed text is a list of pieces: plain text, or one character given by its code
  point where it lies beyond the range of \<open>char\<close>.
\<close>

datatype piece = Txt string | Uni nat

datatype element =
    Header "piece list"
  | SidebarHeader "piece list"
  | Write "piece list"
  | Info "piece list"
  | Success "piece list"
  | Warning "piece list"
  | Error "piece list"
  | Divider

text \<open>
  One run of a page function: what it displayed, the exception that ended it (if any),
  and \<open>st.session_state.activities\<close> when it stopped.
\<close>

record run =
  shown :: "element list"
  raised :: "error option"
  activities :: "activity list"

text \<open>
  \<open>list.sort(key=..., reverse=True)\<close>: the list is reversed, sorted stably in ascending
  order of the key, and reversed again.
\<close>

definition list_sort_reverse :: "('a \<Rightarrow> int) \<Rightarrow> 'a list \<Rightarrow> 'a list" where
  "list_sort_reverse key xs = rev (sort_key key (rev xs))"

section \<open>App layout\<close>

text \<open>
  The input widgets of the form are modelled by the values they return in one run of the
  script: the three text inputs (\<open>start_text\<close> and \<open>end_text\<close> are the locals
  \<open>start_time\<close> and \<open>end_time\<close> of the source), the select box (\<open>level\<close> is the
  local \<open>priority\<close>) and the submit button.
\<close>

definition add_activity ::
  "string \<Rightarrow> string \<Rightarrow> string \<Rightarrow> priority \<Rightarrow> bool \<Rightarrow> activity list \<Rightarrow> run" where
  "add_activity activity_name start_text end_text level submitted session =
     (let form = [Write [Txt ''### Add a New Activity'']] in
      if submitted then
        if activity_name = [] then
          \<lparr>shown = form @ [Warning [Txt ''Please enter an activity name.'']],
           raised = None, activities = session\<rparr>
        else if \<not> validate_time_format start_text \<or> \<not> validate_time_format end_text then
          \<lparr>shown = form @
             [Error [Txt ''Please enter valid start and end times in HH:MM format.'']],
           raised = None, activities = session\<rparr>
        else if str_ge start_text end_text then
          \<lparr>shown = form @ [Error [Txt ''Start time must be earlier than end time.'']],
           raised = None, activities = session\<rparr>
        else
          (case calculate_duration start_text end_text of
             Inl e \<Rightarrow> \<lparr>shown = form, raised = Some e, activities = session\<rparr>
           | Inr d \<Rightarrow>
               \<lparr>shown = form @
                  [Success [Txt ''Activity '', Txt [CHR 0x27], Txt activity_name,
                            Txt [CHR 0x27], Txt '' added successfully!'']],
                raised = None,
                activities = session @
                  [\<lparr>name = activity_name, start_time = start_text, end_time = end_text,
                    priority = level, duration = d\<rparr>]\<rparr>)
      else \<lparr>shown = form, raised = None, activities = session\<rparr>)"

text \<open>The three lines and the divider written for the activity at index \<open>i\<close>.\<close>

definition render_activity :: "nat \<times> activity \<Rightarrow> element list" where
  "render_activity p =
     (case p of (i, a) \<Rightarrow>
        [Write [Txt ''**'', Txt (str_nat (i + 1)), Txt ''. '', Txt (name a), Txt ''**''],
         Write [Txt ''- '', Uni 0x1F552, Txt '' **Time**: '', Txt (start_time a),
                Txt '' to '', Txt (end_time a), Txt '' ('', Txt (str_int (duration a)),
                Txt '' mins)''],
         Write [Txt ''- '', Uni 0x2B50, Txt '' **Priority**: '',
                Txt (priority_str (priority a))],
         Divider])"

definition display_activities :: "activity list \<Rightarrow> run" where
  "display_activities session =
     \<lparr>shown = [Write [Txt ''### Your Planned Activities'']] @
        (if session \<noteq> [] then concat (map render_activity (enumerate 0 session))
         else [Info [Txt
           ''No activities added yet. Use the 'Add Activity' button to get started!'']]),
      raised = None, activities = session\<rparr>"

definition prioritize_activities :: "activity list \<Rightarrow> run" where
  "prioritize_activities session =
     (let sorted_session = list_sort_reverse duration session in
      \<lparr>shown = [Write [Txt ''### Suggested Activity Prioritization'']] @
         concat (map render_activity (enumerate 0 sorted_session)),
       raised = None, activities = sorted_session\<rparr>)"

definition summary_and_reassurance :: "activity list \<Rightarrow> run" where
  "summary_and_reassurance session =
     (let total_activities = length session in
      \<lparr>shown =
         [Write [Txt ''### Daily Summary''],
          Write [Txt ''**Total Activities Planned**: '', Txt (str_nat total_activities)]] @
         [if total_activities = 0 then
            Info [Txt
              ''No activities planned? Use this time to relax, reflect, or set some goals!'']
          else if total_activities \<le> 3 then
            Success [Txt ''You're off to a great start! Focus and finish strong!'']
          else if total_activities \<le> 6 then
            Success [Txt ''You've got a productive day ahead! Remember to take breaks!'']
          else
            Warning [Txt
              ''You have a packed schedule! Stay organized and take care of yourself.'']] @
         (if total_activities > 0 then
            [Write [Txt [newline], Txt ''**Recommended Breaks**''],
             Write [Uni 0x2615,
                    Txt '' Take a 10-15 minute break after every 90 minutes of work.''],
             Write [Uni 0x1F9D8,
                    Txt '' Use short pauses to stretch or be lazy between tasks!'']]
          else []),
       raised = None, activities = session\<rparr>)"

section \<open>Main app function\<close>

datatype page = Add_a_New_Activity | View_Activities | Prioritize_and_Summarize

record form =
  w_activity_name :: string
  w_start_time :: string
  w_end_time :: string
  w_priority :: priority
  w_submitted :: bool

definition main :: "page \<Rightarrow> form \<Rightarrow> activity list \<Rightarrow> run" where
  "main pg w session =
     (let top = [Header [Txt ''DayMaster '', Uni 0x1F4CB],
                 Write [Txt ''#### Plan, prioritize, and conquer your day! '', Uni 0x1F31F],
                 SidebarHeader [Txt ''Navigation'']] in
      case pg of
        Add_a_New_Activity \<Rightarrow>
          (let r = add_activity (w_activity_name w) (w_start_time w) (w_end_time w)
                     (w_priority w) (w_submitted w) session
           in r\<lparr>shown := top @ shown r\<rparr>)
      | View_Activities \<Rightarrow>
          (let r = display_activities session in r\<lparr>shown := top @ shown r\<rparr>)
      | Prioritize_and_Summarize \<Rightarrow>
          if session \<noteq> [] then
            (let r1 = prioritize_activities session;
                 r2 = summary_and_reassurance (activities r1)
             in \<lparr>shown = top @ shown r1 @ shown r2, raised = None,
                 activities = activities r2\<rparr>)
          else
            \<lparr>shown = top @
               [Info [Txt ''No activities to prioritize yet. Start by adding some!'']],
             raised = None, activities = session\<rparr>)"

text \<open>
  The session starts empty and lives across the runs of the script, one run for each
  interaction of the user.
\<close>

fun session_after :: "(page \<times> form) list \<Rightarrow> activity list \<Rightarrow> activity list" where
  "session_after [] session = session"
| "session_after ((pg, w) # evs) session = session_after evs (activities (main pg w session))"

section \<open>Notions of the specification\<close>

text \<open>
  A time text as the specification describes it: an hour 0 to 23 written with one or two
  digits (a leading digit 0 or 1 before any digit, or 2 before 0 to 3), a colon, and a
  minute 00 to 59 written with two digits; nothing before and nothing after.
\<close>

fun hour_minute_text :: "string \<Rightarrow> bool" where
  "hour_minute_text [h, c, m1, m2] =
     (in_class CHR ''0'' CHR ''9'' h \<and> c = CHR '':'' \<and>
      in_class CHR ''0'' CHR ''5'' m1 \<and> in_class CHR ''0'' CHR ''9'' m2)"
| "hour_minute_text [h1, h2, c, m1, m2] =
     ((h1 = CHR ''2'' \<and> in_class CHR ''0'' CHR ''3'' h2 \<or>
       in_class CHR ''0'' CHR ''1'' h1 \<and> in_class CHR ''0'' CHR ''9'' h2) \<and>
      c = CHR '':'' \<and>
      in_class CHR ''0'' CHR ''5'' m1 \<and> in_class CHR ''0'' CHR ''9'' m2)"
| "hour_minute_text _ = False"

definition digit_value :: "char \<Rightarrow> nat" where
  "digit_value c = code_point c - 48"

text \<open>The hour and the minute such a text denotes, and its minutes after midnight.\<close>

fun hour_of :: "string \<Rightarrow> nat" where
  "hour_of [h, c, m1, m2] = digit_value h"
| "hour_of [h1, h2, c, m1, m2] = 10 * digit_value h1 + digit_value h2"
| "hour_of _ = 0"

fun minute_of :: "string \<Rightarrow> nat" where
  "minute_of [h, c, m1, m2] = 10 * digit_value m1 + digit_value m2"
| "minute_of [h1, h2, c, m1, m2] = 10 * digit_value m1 + digit_value m2"
| "minute_of _ = 0"

definition minutes_of_day :: "string \<Rightarrow> int" where
  "minutes_of_day s = 60 * int (hour_of s) + int (minute_of s)"

text \<open>
  The pattern the data model of the specification gives for the stored times,
  \<open>^([01][0-9]|2[0-3]):[0-5][0-9]$\<close>: the hour always has two digits.
\<close>

definition stored_time_pattern :: regex where
  "stored_time_pattern =
     Cat Bol
      (Cat (Alt (Cat (Range CHR ''0'' CHR ''1'') (Range CHR ''0'' CHR ''9''))
                (Cat (Lit CHR ''2'') (Range CHR ''0'' CHR ''3'')))
      (Cat (Lit CHR '':'')
      (Cat (Cat (Range CHR ''0'' CHR ''5'') (Range CHR ''0'' CHR ''9''))
           Eol)))"

definition matches_stored_time_pattern :: "string \<Rightarrow> bool" where
  "matches_stored_time_pattern s = (re_match stored_time_pattern s \<noteq> None)"

text \<open>
  The four messages of the summary, the tier the specification assigns to a count of
  activities (0; 1 to 3; 4 to 6; more than 6), and the two lines that recommend breaks.
\<close>

definition tier_messages :: "element list" where
  "tier_messages =
     [Info [Txt
        ''No activities planned? Use this time to relax, reflect, or set some goals!''],
      Success [Txt ''You're off to a great start! Focus and finish strong!''],
      Success [Txt ''You've got a productive day ahead! Remember to take breaks!''],
      Warning [Txt
        ''You have a packed schedule! Stay organized and take care of yourself.'']]"

definition summary_tier :: "nat \<Rightarrow> element" where
  "summary_tier n =
     (if n = 0 then tier_messages ! 0
      else if 1 \<le> n \<and> n \<le> 3 then tier_messages ! 1
      else if 4 \<le> n \<and> n \<le> 6 then tier_messages ! 2
      else tier_messages ! 3)"

definition break_lines :: "element list" where
  "break_lines =
     [Write [Uni 0x2615,
             Txt '' Take a 10-15 minute break after every 90 minutes of work.''],
      Write [Uni 0x1F9D8,
             Txt '' Use short pauses to stretch or be lazy between tasks!'']]"

section \<open>Character classes\<close>

lemma not_class_colon [simp]:
  "\<not> in_class CHR ''0'' CHR ''9'' CHR '':''"
  "\<not> in_class CHR ''0'' CHR ''5'' CHR '':''"
  "\<not> in_class CHR ''0'' CHR ''3'' CHR '':''"
  "\<not> in_class CHR ''0'' CHR ''1'' CHR '':''"
  by (simp_all add: in_class_def code_point_def)

lemma not_class_newline [simp]:
  "\<not> in_class CHR ''0'' CHR ''9'' newline"
  "\<not> in_class CHR ''0'' CHR ''5'' newline"
  "\<not> in_class CHR ''0'' CHR ''3'' newline"
  "\<not> in_class CHR ''0'' CHR ''1'' newline"
  "newline \<noteq> CHR '':''"
  "newline \<noteq> CHR ''2''"
  by (simp_all add: in_class_def code_point_def newline_def)

lemma class_2 [simp]:
  "in_class CHR ''0'' CHR ''9'' CHR ''2''"
  "\<not> in_class CHR ''0'' CHR ''1'' CHR ''2''"
  by (simp_all add: in_class_def code_point_def)

lemma class_sub:
  "in_class CHR ''0'' CHR ''1'' c \<Longrightarrow> in_class CHR ''0'' CHR ''9'' c"
  "in_class CHR ''0'' CHR ''3'' c \<Longrightarrow> in_class CHR ''0'' CHR ''9'' c"
  "in_class CHR ''0'' CHR ''5'' c \<Longrightarrow> in_class CHR ''0'' CHR ''9'' c"
  by (simp_all add: in_class_def code_point_def)

lemma digit_value_bounds:
  "in_class CHR ''0'' CHR ''9'' c \<Longrightarrow> digit_value c \<le> 9"
  "in_class CHR ''0'' CHR ''5'' c \<Longrightarrow> digit_value c \<le> 5"
  "in_class CHR ''0'' CHR ''3'' c \<Longrightarrow> digit_value c \<le> 3"
  "in_class CHR ''0'' CHR ''1'' c \<Longrightarrow> digit_value c \<le> 1"
  by (auto simp: in_class_def code_point_def digit_value_def)

lemma digit_value_2 [simp]: "digit_value CHR ''2'' = 2"
  by (simp add: code_point_def digit_value_def)

section \<open>The validator\<close>

text \<open>
  What \<open>validate_time_format\<close> accepts, exactly: the time texts, and the time texts
  followed by one newline.
\<close>

lemma validate_time_format_iff:
  "validate_time_format s \<longleftrightarrow>
     hour_minute_text s \<or> (s \<noteq> [] \<and> last s = newline \<and> hour_minute_text (butlast s))"
  by (cases s rule: hour_minute_text.cases)
     (auto simp: validate_time_format_def re_match_def time_pattern_def
           split: list.splits dest: class_sub)

lemma hour_minute_text_validate: "hour_minute_text s \<Longrightarrow> validate_time_format s"
  by (simp add: validate_time_format_iff)

section \<open>Parsing and durations\<close>

lemma strptime_HM_text:
  "hour_minute_text s \<Longrightarrow>
   strptime_HM s = Inr \<lparr>ordinal = 693596, hour = hour_of s, minute = minute_of s\<rparr>"
  by (cases s rule: hour_minute_text.cases)
     (auto simp: strptime_HM_def directive_H_def directive_M_def int_of_digits_def
           digit_value_def[symmetric] dest: class_sub)

lemma strptime_HM_newline:
  "hour_minute_text s \<Longrightarrow> strptime_HM (s @ [newline]) = Inl ValueError"
  by (cases s rule: hour_minute_text.cases)
     (auto simp: strptime_HM_def directive_H_def directive_M_def dest: class_sub)

lemma hour_of_bound: "hour_minute_text s \<Longrightarrow> hour_of s < 24"
  by (cases s rule: hour_minute_text.cases) (auto dest!: digit_value_bounds)

lemma minute_of_bound: "hour_minute_text s \<Longrightarrow> minute_of s < 60"
  by (cases s rule: hour_minute_text.cases) (auto dest!: digit_value_bounds)

lemma minutes_of_day_range:
  "hour_minute_text s \<Longrightarrow> 0 \<le> minutes_of_day s \<and> minutes_of_day s < 1440"
  using hour_of_bound[of s] minute_of_bound[of s] by (simp add: minutes_of_day_def)

text \<open>
  On time texts \<open>calculate_duration\<close> returns, and the result is the distance from start
  to end on the clock: an end strictly earlier than the start counts as the next day.
\<close>

lemma calculate_duration_text:
  assumes "hour_minute_text s" "hour_minute_text e"
  shows "calculate_duration s e =
     Inr (if minutes_of_day e < minutes_of_day s
          then minutes_of_day e + 1440 - minutes_of_day s
          else minutes_of_day e - minutes_of_day s)"
proof -
  have b: "hour_of s < 24" "minute_of s < 60" "hour_of e < 24" "minute_of e < 60"
    using assms by (simp_all add: hour_of_bound minute_of_bound)
  show ?thesis
    using b
    by (auto simp: calculate_duration_def strptime_HM_text[OF assms(1)]
          strptime_HM_text[OF assms(2)] datetime_less_def datetime_add_days_def
          datetime_sub_def make_timedelta_def minutes_of_day_def Let_def)
qed

lemma calculate_duration_range:
  assumes "hour_minute_text s" "hour_minute_text e"
  shows "\<exists>d. calculate_duration s e = Inr d \<and> 0 \<le> d \<and> d \<le> 1439"
  using minutes_of_day_range[OF assms(1)] minutes_of_day_range[OF assms(2)]
  by (simp add: calculate_duration_text[OF assms])

lemmas duration_eval =
  calculate_duration_def strptime_HM_def directive_H_def directive_M_def in_class_def
  code_point_def int_of_digits_def datetime_less_def datetime_add_days_def
  datetime_sub_def make_timedelta_def newline_def

lemmas validate_eval =
  validate_time_format_def re_match_def time_pattern_def in_class_def code_point_def
  newline_def

text \<open>The examples of the specification for the two utility functions.\<close>

lemma validate_time_format_examples:
  "validate_time_format ''09:00'' \<and> validate_time_format ''9:00'' \<and>
   \<not> validate_time_format ''24:00'' \<and> \<not> validate_time_format ''12:60'' \<and>
   \<not> validate_time_format ''''"
  by (simp add: validate_eval)

lemma calculate_duration_examples:
  "calculate_duration ''23:00'' ''01:00'' = Inr 120 \<and>
   calculate_duration ''09:00'' ''10:30'' = Inr 90"
  by (simp add: duration_eval)

text \<open>
  C1 (as amended).  For a start and an end that are time texts denoting the same time of
  day, \<open>calculate_duration\<close> returns 0: the next-day branch is taken only when the end is
  strictly earlier than the start, and the \<open>seconds\<close> of a difference never reach a day.
\<close>

theorem calculate_duration_equal_times:
  assumes "hour_minute_text s" and "hour_minute_text e"
    and "minutes_of_day s = minutes_of_day e"
  shows "calculate_duration s e = Inr 0"
  using assms(3) by (simp add: calculate_duration_text[OF assms(1) assms(2)])

theorem calculate_duration_equal_times_witness:
  "hour_minute_text ''09:00'' \<and> minutes_of_day ''09:00'' = minutes_of_day ''09:00'' \<and>
   calculate_duration ''09:00'' ''09:00'' = Inr 0"
proof -
  have h: "hour_minute_text ''09:00''"
    by (simp add: in_class_def code_point_def)
  show ?thesis
    using h calculate_duration_equal_times[OF h h] by simp
qed

text \<open>
  C1 (as stated) fails: for the start 09:00 and the end 09:00 the result is not 1440.
\<close>

theorem calculate_duration_equal_times_counterexample:
  "calculate_duration ''09:00'' ''09:00'' \<noteq> Inr 1440"
  by (simp add: duration_eval)

text \<open>
  C7.  \<open>validate_time_format\<close> accepts the text 09:00 followed by a newline, which is
  not an hour, a colon and a two-digit minute: \<open>$\<close> also matches just before a final
  newline.
\<close>

theorem validate_time_format_trailing_newline:
  "validate_time_format (''09:00'' @ [newline]) \<and>
   \<not> hour_minute_text (''09:00'' @ [newline])"
  by (simp add: validate_eval)

text \<open>
  C8.  The pair of 09:00 followed by a newline and 10:00 is accepted by
  \<open>validate_time_format\<close>, and \<open>calculate_duration\<close> raises \<open>ValueError\<close> on it instead
  of returning a number of minutes.
\<close>

theorem calculate_duration_raises_on_validated:
  "validate_time_format (''09:00'' @ [newline]) \<and> validate_time_format ''10:00'' \<and>
   calculate_duration (''09:00'' @ [newline]) ''10:00'' = Inl ValueError"
  by (simp add: validate_eval duration_eval)

section \<open>Submitting an activity\<close>

lemma code_point_inj: "code_point x = code_point y \<longleftrightarrow> x = y"
  by (simp add: code_point_def)

lemma code_point_neq:
  "x \<noteq> y \<Longrightarrow> code_point x < code_point y \<or> code_point y < code_point x"
  using code_point_inj[of x y] by linarith

text \<open>\<open>str_ge\<close> is the complement of the strict lexicographic order on code points.\<close>

lemma str_ge_lexord:
  "str_ge a b \<longleftrightarrow> (a, b) \<notin> lexord {(x, y). code_point x < code_point y}"
  by (induction a b rule: str_ge.induct) (auto dest: code_point_neq)

lemma calculate_duration_Inr:
  "calculate_duration s e = Inr d \<Longrightarrow>
   (\<exists>t. strptime_HM s = Inr t) \<and> (\<exists>t. strptime_HM e = Inr t)"
  by (auto simp: calculate_duration_def split: sum.splits)

text \<open>A validated text that \<open>strptime\<close> parses carries no trailing newline.\<close>

lemma validated_parsed_text:
  assumes "validate_time_format s" and "strptime_HM s = Inr t"
  shows "hour_minute_text s"
proof (rule ccontr)
  assume n: "\<not> hour_minute_text s"
  with assms(1) have "s \<noteq> []" "last s = newline" "hour_minute_text (butlast s)"
    by (simp_all add: validate_time_format_iff)
  then have "strptime_HM (butlast s @ [last s]) = Inl ValueError"
    by (simp only: strptime_HM_newline)
  with \<open>s \<noteq> []\<close> assms(2) show False by simp
qed

lemmas page_eval = main_def add_activity_def Let_def

text \<open>The checks of a submission in their order, the first failing one deciding.\<close>

lemma add_activity_missing_name:
  "add_activity [] s e p True session =
     \<lparr>shown = [Write [Txt ''### Add a New Activity''],
               Warning [Txt ''Please enter an activity name.'']],
      raised = None, activities = session\<rparr>"
  by (simp add: add_activity_def)

lemma add_activity_bad_format:
  "n \<noteq> [] \<Longrightarrow> \<not> validate_time_format s \<or> \<not> validate_time_format e \<Longrightarrow>
   add_activity n s e p True session =
     \<lparr>shown = [Write [Txt ''### Add a New Activity''],
               Error [Txt ''Please enter valid start and end times in HH:MM format.'']],
      raised = None, activities = session\<rparr>"
  by (auto simp: add_activity_def)

text \<open>
  With a name, two time texts and a start that sorts before the end, the activity is
  built with the computed duration, appended, and acknowledged by name.
\<close>

lemma add_activity_accepts:
  assumes "n \<noteq> []" "hour_minute_text s" "hour_minute_text e" "\<not> str_ge s e"
  shows "\<exists>d. calculate_duration s e = Inr d \<and>
     add_activity n s e p True session =
       \<lparr>shown = [Write [Txt ''### Add a New Activity''],
                 Success [Txt ''Activity '', Txt [CHR 0x27], Txt n, Txt [CHR 0x27],
                          Txt '' added successfully!'']],
        raised = None,
        activities = session @
          [\<lparr>name = n, start_time = s, end_time = e, priority = p, duration = d\<rparr>]\<rparr>"
proof -
  obtain d where d: "calculate_duration s e = Inr d"
    using calculate_duration_range[OF assms(2) assms(3)] by blast
  show ?thesis
    using assms(1) assms(4) hour_minute_text_validate[OF assms(2)]
      hour_minute_text_validate[OF assms(3)] d
    by (simp add: add_activity_def)
qed

text \<open>
  C2.  A submission is rejected with the message that the start must be earlier than the
  end (nothing raised, the session as it was) exactly when the name is not empty, both
  times pass \<open>validate_time_format\<close>, and the start text is not below the end text in the
  lexicographic order of the code points.  The submission of Run from 23:00 to 01:00 is
  rejected so, although \<open>calculate_duration\<close> gives 120 for these times.
\<close>

theorem add_activity_ordering_rejection:
  "((add_activity n s e p True session =
      \<lparr>shown = [Write [Txt ''### Add a New Activity''],
                Error [Txt ''Start time must be earlier than end time.'']],
       raised = None, activities = session\<rparr>)
    = (n \<noteq> [] \<and> validate_time_format s \<and> validate_time_format e \<and>
       (s, e) \<notin> lexord {(x, y). code_point x < code_point y})) \<and>
   add_activity ''Run'' ''23:00'' ''01:00'' Low True session =
      \<lparr>shown = [Write [Txt ''### Add a New Activity''],
                Error [Txt ''Start time must be earlier than end time.'']],
       raised = None, activities = session\<rparr> \<and>
   calculate_duration ''23:00'' ''01:00'' = Inr 120"
proof -
  have general: "(add_activity n s e p True session =
      \<lparr>shown = [Write [Txt ''### Add a New Activity''],
                Error [Txt ''Start time must be earlier than end time.'']],
       raised = None, activities = session\<rparr>)
    = (n \<noteq> [] \<and> validate_time_format s \<and> validate_time_format e \<and>
       (s, e) \<notin> lexord {(x, y). code_point x < code_point y})"
    by (auto simp: add_activity_def Let_def str_ge_lexord split: sum.splits)
  have run: "add_activity ''Run'' ''23:00'' ''01:00'' Low True session =
      \<lparr>shown = [Write [Txt ''### Add a New Activity''],
                Error [Txt ''Start time must be earlier than end time.'']],
       raised = None, activities = session\<rparr>"
    by (simp add: add_activity_def Let_def validate_eval)
  have dur: "calculate_duration ''23:00'' ''01:00'' = Inr 120"
    by (simp add: duration_eval)
  from general run dur show ?thesis by (intro conjI)
qed

text \<open>C2 at the submission of Run from 23:00 to 01:00 on the empty session.\<close>

theorem add_activity_ordering_rejection_witness:
  "''Run'' \<noteq> [] \<and> validate_time_format ''23:00'' \<and> validate_time_format ''01:00'' \<and>
   (''23:00'', ''01:00'') \<notin> lexord {(x, y). code_point x < code_point y} \<and>
   add_activity ''Run'' ''23:00'' ''01:00'' Low True [] =
      \<lparr>shown = [Write [Txt ''### Add a New Activity''],
                Error [Txt ''Start time must be earlier than end time.'']],
       raised = None, activities = []\<rparr>"
  using add_activity_ordering_rejection[of "''Run''" "''23:00''" "''01:00''" Low "[]"]
  by blast

text \<open>
  C4.  The submission of Run from 09:00 followed by a newline to 10:00 passes the three
  checks (the name is not empty, both times pass \<open>validate_time_format\<close>, the start
  sorts before the end), and yet no activity is appended and no success is shown:
  \<open>calculate_duration\<close> raises \<open>ValueError\<close>.
\<close>

theorem add_activity_raises_after_checks:
  "''Run'' \<noteq> [] \<and>
   validate_time_format (''09:00'' @ [newline]) \<and> validate_time_format ''10:00'' \<and>
   \<not> str_ge (''09:00'' @ [newline]) ''10:00'' \<and>
   add_activity ''Run'' (''09:00'' @ [newline]) ''10:00'' High True [] =
     \<lparr>shown = [Write [Txt ''### Add a New Activity'']],
      raised = Some ValueError, activities = []\<rparr>"
  by (simp add: add_activity_def Let_def validate_eval duration_eval)

text \<open>C4 at that submission: what is raised, and the session after it.\<close>

theorem add_activity_raises_after_checks_witness:
  "raised (add_activity ''Run'' (''09:00'' @ [newline]) ''10:00'' High True []) =
     Some ValueError \<and>
   activities (add_activity ''Run'' (''09:00'' @ [newline]) ''10:00'' High True []) = []"
  using add_activity_raises_after_checks by simp

text \<open>
  C5.  A submission with a missing name, a time that fails \<open>validate_time_format\<close>, or a
  start text not below the end text leaves the session as it was, and raises nothing.
\<close>

theorem add_activity_rejection_keeps_session:
  assumes "n = [] \<or> \<not> validate_time_format s \<or> \<not> validate_time_format e \<or> str_ge s e"
  shows "activities (add_activity n s e p True session) = session \<and>
         raised (add_activity n s e p True session) = None"
  using assms by (auto simp: add_activity_def Let_def)

theorem add_activity_rejection_keeps_session_witness:
  "('''' = [] \<or> \<not> validate_time_format ''09:00'' \<or> \<not> validate_time_format ''10:00'' \<or>
    str_ge ''09:00'' ''10:00'') \<and>
   activities (add_activity '''' ''09:00'' ''10:00'' High True
     [\<lparr>name = ''Walk'', start_time = ''9:00'', end_time = ''9:30'', priority = Low,
       duration = 30\<rparr>])
   = [\<lparr>name = ''Walk'', start_time = ''9:00'', end_time = ''9:30'', priority = Low,
       duration = 30\<rparr>]"
proof -
  have h: "'''' = [] \<or> \<not> validate_time_format ''09:00'' \<or>
      \<not> validate_time_format ''10:00'' \<or> str_ge ''09:00'' ''10:00''"
    by simp
  show ?thesis
    using h add_activity_rejection_keeps_session[OF h] by simp
qed

section \<open>The stored activities\<close>

lemma add_activity_times:
  assumes "\<forall>a \<in> set session. hour_minute_text (start_time a) \<and> hour_minute_text (end_time a)"
  shows "\<forall>a \<in> set (activities (add_activity n s e p b session)).
           hour_minute_text (start_time a) \<and> hour_minute_text (end_time a)"
  using assms
  by (auto simp: add_activity_def Let_def split: sum.splits
           dest!: calculate_duration_Inr intro: validated_parsed_text)

lemma set_list_sort_reverse [simp]: "set (list_sort_reverse f xs) = set xs"
  by (simp add: list_sort_reverse_def)

lemma length_list_sort_reverse [simp]: "length (list_sort_reverse f xs) = length xs"
  by (simp add: list_sort_reverse_def)

lemma list_sort_reverse_Nil [simp]: "(list_sort_reverse f xs = []) = (xs = [])"
  using length_list_sort_reverse[of f xs] by (simp only: length_0_conv[symmetric])

lemma main_times:
  assumes "\<forall>a \<in> set session. hour_minute_text (start_time a) \<and> hour_minute_text (end_time a)"
  shows "\<forall>a \<in> set (activities (main pg w session)).
           hour_minute_text (start_time a) \<and> hour_minute_text (end_time a)"
proof (cases pg)
  case Add_a_New_Activity
  then show ?thesis
    using add_activity_times[OF assms] by (simp add: main_def Let_def)
next
  case View_Activities
  then show ?thesis
    using assms by (simp add: main_def display_activities_def)
next
  case Prioritize_and_Summarize
  then show ?thesis
    using assms
    by (simp add: main_def prioritize_activities_def summary_and_reassurance_def Let_def)
qed

lemma session_after_times:
  "\<forall>a \<in> set session. hour_minute_text (start_time a) \<and> hour_minute_text (end_time a) \<Longrightarrow>
   \<forall>a \<in> set (session_after evs session).
      hour_minute_text (start_time a) \<and> hour_minute_text (end_time a)"
proof (induction evs arbitrary: session)
  case Nil
  then show ?case by simp
next
  case (Cons ev evs)
  obtain pg w where ev: "ev = (pg, w)" by (cases ev)
  show ?case
    unfolding ev session_after.simps
    by (rule Cons.IH) (rule main_times[OF Cons.prems])
qed

text \<open>
  C3 (as amended).  In every session reached from the empty one by runs of the script,
  the start and the end of every stored activity are time texts: an hour 0 to 23 of one
  or two digits, a colon, a minute 00 to 59 of two digits, and nothing else.
\<close>

theorem stored_times_well_formed:
  "\<forall>a \<in> set (session_after evs []).
      hour_minute_text (start_time a) \<and> hour_minute_text (end_time a)"
  by (rule session_after_times) simp

theorem stored_times_well_formed_witness:
  "\<lparr>name = ''Walk'', start_time = ''9:00'', end_time = ''9:30'', priority = Low,
     duration = 30\<rparr>
     \<in> set (session_after
         [(Add_a_New_Activity,
           \<lparr>w_activity_name = ''Walk'', w_start_time = ''9:00'', w_end_time = ''9:30'',
            w_priority = Low, w_submitted = True\<rparr>)] []) \<and>
   hour_minute_text ''9:00'' \<and> hour_minute_text ''9:30''"
proof -
  have m: "\<lparr>name = ''Walk'', start_time = ''9:00'', end_time = ''9:30'', priority = Low,
       duration = 30\<rparr>
     \<in> set (session_after
         [(Add_a_New_Activity,
           \<lparr>w_activity_name = ''Walk'', w_start_time = ''9:00'', w_end_time = ''9:30'',
            w_priority = Low, w_submitted = True\<rparr>)] [])"
    by (simp add: page_eval validate_eval duration_eval)
  show ?thesis
    using m bspec[OF stored_times_well_formed m] by simp
qed

text \<open>
  C3 (as stated) fails: the submission of Walk from 9:00 to 9:30 is stored, and its start
  9:00 does not match the pattern with a two-digit hour.
\<close>

theorem stored_times_two_digit_hour_counterexample:
  "\<lparr>name = ''Walk'', start_time = ''9:00'', end_time = ''9:30'', priority = Low,
     duration = 30\<rparr>
     \<in> set (session_after
         [(Add_a_New_Activity,
           \<lparr>w_activity_name = ''Walk'', w_start_time = ''9:00'', w_end_time = ''9:30'',
            w_priority = Low, w_submitted = True\<rparr>)] []) \<and>
   \<not> matches_stored_time_pattern
       (start_time \<lparr>name = ''Walk'', start_time = ''9:00'', end_time = ''9:30'',
                     priority = Low, duration = 30\<rparr>)"
  by (simp add: page_eval validate_eval duration_eval matches_stored_time_pattern_def
        stored_time_pattern_def)

section \<open>Prioritization\<close>

text \<open>
  C6.  \<open>prioritize_activities\<close> leaves in the session a permutation of what it found,
  with durations in non-increasing order, and the activities of any one duration in the
  order they had before; four activities of durations 30, 90, 90, 10 come out as the
  second, the third, the first and the fourth.
\<close>

theorem prioritize_activities_stable_sort:
  "mset (activities (prioritize_activities session)) = mset session \<and>
   sorted_wrt (\<lambda>a b. duration b \<le> duration a)
     (activities (prioritize_activities session)) \<and>
   (\<forall>k. filter (\<lambda>a. duration a = k) (activities (prioritize_activities session)) =
        filter (\<lambda>a. duration a = k) session) \<and>
   activities (prioritize_activities
     [\<lparr>name = ''A'', start_time = ''09:00'', end_time = ''09:30'', priority = High,
       duration = 30\<rparr>,
      \<lparr>name = ''B'', start_time = ''10:00'', end_time = ''11:30'', priority = Low,
       duration = 90\<rparr>,
      \<lparr>name = ''C'', start_time = ''12:00'', end_time = ''13:30'', priority = Medium,
       duration = 90\<rparr>,
      \<lparr>name = ''D'', start_time = ''14:00'', end_time = ''14:10'', priority = Low,
       duration = 10\<rparr>])
   = [\<lparr>name = ''B'', start_time = ''10:00'', end_time = ''11:30'', priority = Low,
       duration = 90\<rparr>,
      \<lparr>name = ''C'', start_time = ''12:00'', end_time = ''13:30'', priority = Medium,
       duration = 90\<rparr>,
      \<lparr>name = ''A'', start_time = ''09:00'', end_time = ''09:30'', priority = High,
       duration = 30\<rparr>,
      \<lparr>name = ''D'', start_time = ''14:00'', end_time = ''14:10'', priority = Low,
       duration = 10\<rparr>]"
proof -
  let ?ys = "sort_key duration (rev session)"
  have r: "activities (prioritize_activities session) = rev ?ys"
    by (simp add: prioritize_activities_def list_sort_reverse_def Let_def)
  have p: "mset (activities (prioritize_activities session)) = mset session"
    by (simp add: r)
  have "sorted (map duration ?ys)" by (rule sorted_sort_key)
  then have s: "sorted_wrt (\<lambda>a b. duration b \<le> duration a)
      (activities (prioritize_activities session))"
    by (simp add: r sorted_wrt_rev sorted_wrt_map)
  have f: "\<forall>k. filter (\<lambda>a. duration a = k) (activities (prioritize_activities session)) =
        filter (\<lambda>a. duration a = k) session"
  proof
    fix k
    have "filter (\<lambda>a. duration a = k) (rev ?ys) = rev (filter (\<lambda>a. duration a = k) ?ys)"
      by (simp add: rev_filter)
    also have "\<dots> = rev (filter (\<lambda>a. duration a = k) (rev session))"
      by (simp only: sort_key_stable)
    also have "\<dots> = filter (\<lambda>a. duration a = k) session"
      by (simp add: rev_filter)
    finally show "filter (\<lambda>a. duration a = k) (activities (prioritize_activities session)) =
        filter (\<lambda>a. duration a = k) session"
      by (simp only: r)
  qed
  have ex: "activities (prioritize_activities
     [\<lparr>name = ''A'', start_time = ''09:00'', end_time = ''09:30'', priority = High,
       duration = 30\<rparr>,
      \<lparr>name = ''B'', start_time = ''10:00'', end_time = ''11:30'', priority = Low,
       duration = 90\<rparr>,
      \<lparr>name = ''C'', start_time = ''12:00'', end_time = ''13:30'', priority = Medium,
       duration = 90\<rparr>,
      \<lparr>name = ''D'', start_time = ''14:00'', end_time = ''14:10'', priority = Low,
       duration = 10\<rparr>])
   = [\<lparr>name = ''B'', start_time = ''10:00'', end_time = ''11:30'', priority = Low,
       duration = 90\<rparr>,
      \<lparr>name = ''C'', start_time = ''12:00'', end_time = ''13:30'', priority = Medium,
       duration = 90\<rparr>,
      \<lparr>name = ''A'', start_time = ''09:00'', end_time = ''09:30'', priority = High,
       duration = 30\<rparr>,
      \<lparr>name = ''D'', start_time = ''14:00'', end_time = ''14:10'', priority = Low,
       duration = 10\<rparr>]"
    by (simp add: prioritize_activities_def list_sort_reverse_def Let_def)
  from p s f ex show ?thesis by (intro conjI)
qed

section \<open>Summary\<close>

text \<open>The tiers at the counts 0, 2, 5 and 8.\<close>

lemma summary_tier_examples:
  "summary_tier 0 = Info [Txt
     ''No activities planned? Use this time to relax, reflect, or set some goals!''] \<and>
   summary_tier 2 = Success [Txt ''You're off to a great start! Focus and finish strong!''] \<and>
   summary_tier 5 =
     Success [Txt ''You've got a productive day ahead! Remember to take breaks!''] \<and>
   summary_tier 8 = Warning [Txt
     ''You have a packed schedule! Stay organized and take care of yourself.'']"
  by (simp add: summary_tier_def tier_messages_def)

text \<open>
  C9.  What \<open>summary_and_reassurance\<close> displays is a function of the number of
  activities alone: the two heading lines, the one tier message for that number (0; 1 to
  3; 4 to 6; more than 6), and then, exactly when the number is above 0, the heading of
  the breaks and the two lines that recommend them.  The session is left as it was.
\<close>

theorem summary_and_reassurance_tiers:
  "shown (summary_and_reassurance session) =
     [Write [Txt ''### Daily Summary''],
      Write [Txt ''**Total Activities Planned**: '', Txt (str_nat (length session))],
      summary_tier (length session)] @
     (if 0 < length session
      then Write [Txt [newline], Txt ''**Recommended Breaks**''] # break_lines
      else []) \<and>
   filter (\<lambda>x. x \<in> set tier_messages) (shown (summary_and_reassurance session)) =
     [summary_tier (length session)] \<and>
   filter (\<lambda>x. x \<in> set break_lines) (shown (summary_and_reassurance session)) =
     (if 0 < length session then break_lines else []) \<and>
   activities (summary_and_reassurance session) = session \<and>
   raised (summary_and_reassurance session) = None"
  by (auto simp: summary_and_reassurance_def Let_def summary_tier_def tier_messages_def
        break_lines_def Suc_le_eq)

section \<open>The dispatcher\<close>

lemma render_activity_no_info [simp]: "Info m \<notin> set (render_activity x)"
  by (auto simp: render_activity_def split: prod.splits)

lemma relax_not_in_main:
  "Info [Txt ''No activities planned? Use this time to relax, reflect, or set some goals!'']
     \<notin> set (shown (main pg w session))"
proof (cases pg)
  case Add_a_New_Activity
  then show ?thesis
    by (auto simp: main_def add_activity_def Let_def split: sum.splits)
next
  case View_Activities
  then show ?thesis
    by (simp add: main_def display_activities_def Let_def)
next
  case Prioritize_and_Summarize
  then show ?thesis
    by (simp add: main_def prioritize_activities_def summary_and_reassurance_def Let_def)
qed

text \<open>
  C10.  On the page Prioritize and Summarize with an empty session, \<open>main\<close> displays its
  heading and the placeholder only, and leaves the session empty.  In no run of \<open>main\<close>,
  on any page, with any form values, in any session reached from the empty one, is the
  message for zero activities displayed, although \<open>summary_and_reassurance\<close> displays it
  when called on the empty session.
\<close>

theorem main_never_shows_zero_tier:
  "main Prioritize_and_Summarize w [] =
     \<lparr>shown = [Header [Txt ''DayMaster '', Uni 0x1F4CB],
               Write [Txt ''#### Plan, prioritize, and conquer your day! '', Uni 0x1F31F],
               SidebarHeader [Txt ''Navigation''],
               Info [Txt ''No activities to prioritize yet. Start by adding some!'']],
      raised = None, activities = []\<rparr> \<and>
   Info [Txt ''No activities planned? Use this time to relax, reflect, or set some goals!'']
     \<notin> set (shown (main pg w' (session_after evs []))) \<and>
   Info [Txt ''No activities planned? Use this time to relax, reflect, or set some goals!'']
     \<in> set (shown (summary_and_reassurance []))"
  using relax_not_in_main[of pg w' "session_after evs []"]
  by (simp add: main_def summary_and_reassurance_def)

end
